theory Spec2Isabelle
  imports Complex_Main
begin

section \<open>Data model\<close>

text \<open>
  The module \<^verbatim>\<open>manim_ml/neural_network/neural_network.py\<close> defines the class
  \<^verbatim>\<open>NeuralNetwork\<close>, a group of layer objects laid out in one row, the connective layers
  synthesised between adjacent layers, and two animation factories.

  Coordinates, widths and run times are Python floats; they are modelled in exact real
  arithmetic (rounding is not modelled). A point is a numpy array of three coordinates.
\<close>

type_synonym point = "real \<times> real \<times> real"

definition ORIGIN :: point where
  "ORIGIN = (0, 0, 0)"

fun padd :: "point \<Rightarrow> point \<Rightarrow> point" where
  "padd (a, b, c) (d, e, f) = (a + d, b + e, c + f)"

fun psub :: "point \<Rightarrow> point \<Rightarrow> point" where
  "psub (a, b, c) (d, e, f) = (a - d, b - e, c - f)"

fun px :: "point \<Rightarrow> real" where
  "px (a, b, c) = a"

fun py :: "point \<Rightarrow> real" where
  "py (a, b, c) = b"

fun pz :: "point \<Rightarrow> real" where
  "pz (a, b, c) = c"

text \<open>
  The class of a layer object, as far as the \<^verbatim>\<open>isinstance\<close> dispatch of the module can
  tell: \<^verbatim>\<open>FeedForwardLayer\<close>, \<^verbatim>\<open>ImageLayer\<close>, or any other class (with its name).
\<close>

datatype layer_class = FeedForwardLayer_class | ImageLayer_class | Other_class string

text \<open>
  A layer is an opaque drawable: the module reads its class, the centre and the width of
  its bounding box, and writes its position and its z-index. A translation changes the
  centre and leaves width and height as they are. The members of the group
  \<^verbatim>\<open>input_layers\<close> are distinct objects; a layer is identified by its index in the group.
\<close>

record layer =
  layer_type :: layer_class
  center :: point
  width :: real
  height :: real
  z_index :: int

text \<open>
  Modelled from the spec: the connective classes \<^verbatim>\<open>FeedForwardToFeedForward\<close> and
  \<^verbatim>\<open>ImageToFeedForward\<close> of \<^verbatim>\<open>manim_ml.neural_network.connective_layers\<close> are not among
  the source files. A connector refers to exactly two layers, its "from" and its "to"
  layer, without owning them; a layer is referred to by its index in
  \<^verbatim>\<open>input_layers\<close>. The first variant is parameterised by the edge width, the second by
  the dot radius.
\<close>

datatype connective_variant = FeedForwardToFeedForward real | ImageToFeedForward real

record connective =
  variant :: connective_variant
  from_layer :: nat
  to_layer :: nat
  c_z_index :: int

text \<open>
  An element of the display group \<^verbatim>\<open>all_layers\<close>: a layer (by its index in
  \<^verbatim>\<open>input_layers\<close>) or a connector (by its index in \<^verbatim>\<open>connective_layers\<close>).
\<close>

datatype element = Layer_ref nat | Connective_ref nat

text \<open>
  A call of \<^verbatim>\<open>warnings.warn\<close> with the message naming \<^verbatim>\<open>type(current_layer)\<close> and
  \<^verbatim>\<open>type(next_layer)\<close>; the call returns and the loop goes on. The calls are recorded in
  order; which of them the warning filter prints is not modelled.
\<close>

datatype warning = Unimplemented_connection layer_class layer_class

datatype error = IndexError

text \<open>
  What the module takes from its surroundings: \<^verbatim>\<open>config.frame_width\<close>, the centre of
  the bounding box of a group of layers and connectors (the geometry of a connector is
  not known to the module), and the z-index a connective constructor gives the connector
  it builds, by its variant and the index of its first layer (the constructors are not
  among the source files, and nothing fixes the depth of a new connector).
\<close>

record environment =
  frame_width :: real
  group_center :: "layer list \<Rightarrow> connective list \<Rightarrow> point"
  connective_z_index :: "connective_variant \<Rightarrow> nat \<Rightarrow> int"

type_synonym color = string

record neural_network =
  input_layers :: "layer list"
  connective_layers :: "connective list"
  all_layers :: "element list"
  edge_width :: real
  edge_color :: color
  layer_spacing :: real
  animation_dot_color :: color
  dot_radius :: real

section \<open>Drawable operations\<close>

definition get_center :: "layer \<Rightarrow> point" where
  "get_center l = center l"

definition shift :: "layer \<Rightarrow> point \<Rightarrow> layer" where
  "shift l v = l\<lparr>center := padd (center l) v\<rparr>"

definition move_to :: "layer \<Rightarrow> point \<Rightarrow> layer" where
  "move_to l p = shift l (psub p (get_center l))"

definition set_z_index :: "int \<Rightarrow> layer list \<Rightarrow> layer list" where
  "set_z_index z ls = map (\<lambda>l. l\<lparr>z_index := z\<rparr>) ls"

definition set_z_index_connective :: "int \<Rightarrow> connective list \<Rightarrow> connective list" where
  "set_z_index_connective z cs = map (\<lambda>c. c\<lparr>c_z_index := z\<rparr>) cs"

text \<open>
  Indexing a group: Python list indexing, negative indices counting from the end,
  \<^verbatim>\<open>IndexError\<close> out of range. The result is the position of the member found.
\<close>

definition py_index :: "'a list \<Rightarrow> int \<Rightarrow> error + nat" where
  "py_index xs i =
     (if 0 \<le> i \<and> i < int (length xs) then Inr (nat i)
      else if i < 0 \<and> 0 \<le> int (length xs) + i then Inr (nat (int (length xs) + i))
      else Inl IndexError)"

definition isinstance :: "layer \<Rightarrow> layer_class \<Rightarrow> bool" where
  "isinstance l c = (layer_type l = c)"

section \<open>Layout: \<^verbatim>\<open>_place_layers\<close>\<close>

text \<open>
  One pass of the loop body, for \<^verbatim>\<open>layer_index\<close> in \<^verbatim>\<open>range(1, len(input_layers))\<close>:
  both indices are in range there. The previous layer is read after its own move.
\<close>

definition place_step :: "environment \<Rightarrow> nat \<Rightarrow> layer list \<Rightarrow> layer list" where
  "place_step env layer_index ls =
     (let previous_layer = ls ! (layer_index - 1);
          current_layer = ls ! layer_index;
          spacing = frame_width env * 0.05
                    + (width previous_layer / 2 + width current_layer / 2);
          current_layer = move_to current_layer (get_center previous_layer);
          current_layer = shift current_layer (spacing, 0, 0)
      in ls[layer_index := current_layer])"

definition place_loop :: "environment \<Rightarrow> layer list \<Rightarrow> layer list" where
  "place_loop env ls = fold (place_step env) [1..<length ls] ls"

definition place_layers :: "environment \<Rightarrow> layer list \<Rightarrow> layer list" where
  "place_layers env ls = set_z_index 2 (place_loop env ls)"

section \<open>Connector synthesis: \<^verbatim>\<open>_construct_connective_layers\<close>\<close>

text \<open>
  The state of the loop: \<^verbatim>\<open>connective_layers\<close>, \<^verbatim>\<open>all_layers\<close> and the warnings given so
  far. A new connector is referred to by the position it takes in
  \<^verbatim>\<open>connective_layers\<close>.
\<close>

type_synonym synth_state = "connective list \<times> element list \<times> warning list"

definition supported :: "layer \<Rightarrow> layer \<Rightarrow> bool" where
  "supported a b =
     ((isinstance a FeedForwardLayer_class \<and> isinstance b FeedForwardLayer_class)
      \<or> (isinstance a ImageLayer_class \<and> isinstance b FeedForwardLayer_class))"

definition connect_step ::
    "environment \<Rightarrow> layer list \<Rightarrow> real \<Rightarrow> real \<Rightarrow> nat \<Rightarrow> synth_state \<Rightarrow> synth_state" where
  "connect_step env ls ew dr layer_index st =
     (case st of (cs, als, ws) \<Rightarrow>
        let current_layer = ls ! layer_index;
            als = als @ [Layer_ref layer_index];
            next_layer = ls ! (layer_index + 1)
        in if isinstance current_layer FeedForwardLayer_class \<and> isinstance next_layer FeedForwardLayer_class then
             let edge_layer = \<lparr>variant = FeedForwardToFeedForward ew,
                    from_layer = layer_index, to_layer = layer_index + 1,
                    c_z_index = connective_z_index env (FeedForwardToFeedForward ew) layer_index\<rparr>
             in (cs @ [edge_layer], als @ [Connective_ref (length cs)], ws)
           else if isinstance current_layer ImageLayer_class \<and> isinstance next_layer FeedForwardLayer_class then
             let image_to_feedforward = \<lparr>variant = ImageToFeedForward dr,
                    from_layer = layer_index, to_layer = layer_index + 1,
                    c_z_index = connective_z_index env (ImageToFeedForward dr) layer_index\<rparr>
             in (cs @ [image_to_feedforward], als @ [Connective_ref (length cs)], ws)
           else
             (cs, als, ws @ [Unimplemented_connection (layer_type current_layer)
                                                      (layer_type next_layer)]))"

definition connect_loop :: "environment \<Rightarrow> layer list \<Rightarrow> real \<Rightarrow> real \<Rightarrow> synth_state" where
  "connect_loop env ls ew dr = fold (connect_step env ls ew dr) [0..<length ls - 1] ([], [], [])"

definition construct_connective_layers ::
    "environment \<Rightarrow> layer list \<Rightarrow> real \<Rightarrow> real \<Rightarrow> error + synth_state" where
  "construct_connective_layers env ls ew dr =
     (case connect_loop env ls ew dr of (cs, als, ws) \<Rightarrow>
        (case py_index ls (- 1) of
           Inl e \<Rightarrow> Inl e
         | Inr final \<Rightarrow> Inr (set_z_index_connective 0 cs, als @ [Layer_ref final], ws)))"

section \<open>The constructor \<^verbatim>\<open>NeuralNetwork.__init__\<close>\<close>

definition WHITE :: color where "WHITE = ''#FFFFFF''"
definition RED :: color where "RED = ''#FC6255''"
definition BLUE :: color where "BLUE = ''#58C4DD''"

text \<open>
  The result is the diagram with the warnings given on the way, or the exception that
  ended the constructor. \<^verbatim>\<open>all_layers.move_to(ORIGIN)\<close> translates every member of the
  display group by one vector; the members are the layer objects of \<^verbatim>\<open>input_layers\<close>
  themselves, so it is their centres that move. The last statement,
  \<^verbatim>\<open>self.add(self.all_layers)\<close>, makes the display group a member of the diagram and changes
  none of the fields below.
\<close>

definition NeuralNetwork_init ::
    "environment \<Rightarrow> layer list \<Rightarrow> color \<Rightarrow> real \<Rightarrow> color \<Rightarrow> real \<Rightarrow> real
      \<Rightarrow> error + (neural_network \<times> warning list)" where
  "NeuralNetwork_init env ls ecol lsp adcol ew dr =
     (let placed = place_layers env ls in
      case construct_connective_layers env placed ew dr of
        Inl e \<Rightarrow> Inl e
      | Inr (cs, als, ws) \<Rightarrow>
          let v = psub ORIGIN (group_center env placed cs)
          in Inr (\<lparr>input_layers = map (\<lambda>l. shift l v) placed,
                    connective_layers = cs,
                    all_layers = als,
                    edge_width = ew,
                    edge_color = ecol,
                    layer_spacing = lsp,
                    animation_dot_color = adcol,
                    dot_radius = dr\<rparr>, ws))"

text \<open>The constructor with the default values of its keyword arguments.\<close>

definition NeuralNetwork :: "environment \<Rightarrow> layer list \<Rightarrow> error + (neural_network \<times> warning list)" where
  "NeuralNetwork env ls = NeuralNetwork_init env ls WHITE 0.8 RED 1.5 0.03"

section \<open>Animations\<close>

text \<open>
  The animations the module asks of its collaborators: the forward pass of a layer (by
  index in \<^verbatim>\<open>input_layers\<close>), the forward pass of a connector (by index in
  \<^verbatim>\<open>connective_layers\<close>), and the creation of a member of the display group. An
  \<^verbatim>\<open>AnimationGroup\<close> keeps the animations in the order given, the \<^verbatim>\<open>run_time\<close> it was
  given (if any) and the lag ratio.
\<close>

datatype animation = Layer_forward_pass nat | Connective_forward_pass nat | Create element

record animation_group =
  animations :: "animation list"
  run_time :: "real option"
  lag_ratio :: real

text \<open>
  The loop of \<^verbatim>\<open>make_forward_pass_animation\<close> over
  \<^verbatim>\<open>enumerate(self.input_layers[:-1])\<close>: the layer's animation, then the animation of
  \<^verbatim>\<open>self.connective_layers[layer_index]\<close>, whose indexing raises out of range.
\<close>

fun forward_loop :: "connective list \<Rightarrow> nat list \<Rightarrow> animation list \<Rightarrow> error + animation list" where
  "forward_loop cs [] all_animations = Inr all_animations"
| "forward_loop cs (layer_index # rest) all_animations =
     (let all_animations = all_animations @ [Layer_forward_pass layer_index]
      in case py_index cs (int layer_index) of
           Inl e \<Rightarrow> Inl e
         | Inr k \<Rightarrow> forward_loop cs rest (all_animations @ [Connective_forward_pass k]))"

definition make_forward_pass_animation ::
    "neural_network \<Rightarrow> real \<Rightarrow> bool \<Rightarrow> error + animation_group" where
  "make_forward_pass_animation nn rt passing_flash =
     (case forward_loop (connective_layers nn) [0..<length (input_layers nn) - 1] [] of
        Inl e \<Rightarrow> Inl e
      | Inr all_animations \<Rightarrow>
          (case py_index (input_layers nn) (- 1) of
             Inl e \<Rightarrow> Inl e
           | Inr final \<Rightarrow>
               Inr \<lparr>animations = all_animations @ [Layer_forward_pass final],
                    run_time = Some rt, lag_ratio = 1\<rparr>))"

text \<open>The call with the default arguments \<^verbatim>\<open>run_time=10, passing_flash=True\<close>.\<close>

definition make_forward_pass_animation_default :: "neural_network \<Rightarrow> error + animation_group" where
  "make_forward_pass_animation_default nn = make_forward_pass_animation nn 10 True"

definition create_override :: "neural_network \<Rightarrow> animation_group" where
  "create_override nn =
     \<lparr>animations = map Create (all_layers nn), run_time = None, lag_ratio = 1\<rparr>"

text \<open>
  Modelled from the spec: the animation-composition primitive of the rendering
  environment (\<^verbatim>\<open>AnimationGroup\<close>), which is not among the source files. Every
  sub-animation has a duration and a start offset. The next sub-animation starts at the
  previous start moved towards the previous end by the lag ratio: together with it at lag
  ratio 0, right as it ends at lag ratio 1. The group lasts until the last end time,
  unless a total duration was requested, which overrides it. The durations of the
  collaborators' animations are a parameter.
\<close>

fun timings :: "(animation \<Rightarrow> real) \<Rightarrow> real \<Rightarrow> real \<Rightarrow> animation list
      \<Rightarrow> (animation \<times> real \<times> real) list" where
  "timings dur lag curr_time [] = []"
| "timings dur lag curr_time (a # as) =
     (let start_time = curr_time; end_time = start_time + dur a
      in (a, start_time, end_time)
         # timings dur lag ((1 - lag) * start_time + lag * end_time) as)"

fun max_end_time :: "(animation \<times> real \<times> real) list \<Rightarrow> real" where
  "max_end_time [] = 0"
| "max_end_time [(a, s, e)] = e"
| "max_end_time ((a, s, e) # rest) = max e (max_end_time rest)"

definition get_run_time :: "(animation \<Rightarrow> real) \<Rightarrow> animation_group \<Rightarrow> real" where
  "get_run_time dur g =
     (case run_time g of
        Some rt \<Rightarrow> rt
      | None \<Rightarrow> max_end_time (timings dur (lag_ratio g) 0 (animations g)))"

section \<open>\<^verbatim>\<open>FeedForwardNeuralNetwork\<close>\<close>

text \<open>
  Modelled from the spec: the class \<^verbatim>\<open>FeedForwardLayer\<close> of
  \<^verbatim>\<open>manim_ml.neural_network.layers\<close> is not among the source files. Its constructor gives
  a layer of the feed-forward variant; the bounding box it draws for a node count and a
  node radius (centre, width, height) is a parameter, and a new drawable has z-index 0.
\<close>

definition FeedForwardLayer ::
    "(int \<Rightarrow> real \<Rightarrow> point \<times> real \<times> real) \<Rightarrow> int \<Rightarrow> color \<Rightarrow> real \<Rightarrow> layer" where
  "FeedForwardLayer geom num_nodes node_color node_radius =
     (case geom num_nodes node_radius of (c, w, h) \<Rightarrow>
        \<lparr>layer_type = FeedForwardLayer_class, center = c, width = w, height = h, z_index = 0\<rparr>)"

definition FeedForwardNeuralNetwork_init ::
    "environment \<Rightarrow> (int \<Rightarrow> real \<Rightarrow> point \<times> real \<times> real) \<Rightarrow> int list \<Rightarrow> real \<Rightarrow> color
      \<Rightarrow> color \<Rightarrow> real \<Rightarrow> color \<Rightarrow> real \<Rightarrow> real
      \<Rightarrow> error + (neural_network \<times> warning list)" where
  "FeedForwardNeuralNetwork_init env geom layer_node_count node_radius node_color
       ecol lsp adcol ew dr =
     (let layers = map (\<lambda>num_nodes. FeedForwardLayer geom num_nodes node_color node_radius)
                       layer_node_count
      in NeuralNetwork_init env layers ecol lsp adcol ew dr)"

definition FeedForwardNeuralNetwork ::
    "environment \<Rightarrow> (int \<Rightarrow> real \<Rightarrow> point \<times> real \<times> real) \<Rightarrow> int list
      \<Rightarrow> error + (neural_network \<times> warning list)" where
  "FeedForwardNeuralNetwork env geom layer_node_count =
     FeedForwardNeuralNetwork_init env geom layer_node_count 0.08 BLUE WHITE 0.8 RED 1.5 0.03"

section \<open>Auxiliary notions and sample inputs\<close>

text \<open>Two layers that differ at most in their position.\<close>

definition same_shape :: "layer \<Rightarrow> layer \<Rightarrow> bool" where
  "same_shape a b \<longleftrightarrow> a = b\<lparr>center := center a\<rparr>"

text \<open>
  Closed forms of what the synthesis loop has built after the adjacencies below \<open>n\<close>: the
  connector of a supported adjacency, the warning of an unsupported one, and the members
  a pass adds to the display group.
\<close>

definition adjacent_supported :: "layer list \<Rightarrow> nat \<Rightarrow> bool" where
  "adjacent_supported ls i = supported (ls ! i) (ls ! (i + 1))"

definition connector_for ::
    "environment \<Rightarrow> layer list \<Rightarrow> real \<Rightarrow> real \<Rightarrow> nat \<Rightarrow> connective" where
  "connector_for env ls ew dr i =
     \<lparr>variant = (if isinstance (ls ! i) FeedForwardLayer_class
                    then FeedForwardToFeedForward ew else ImageToFeedForward dr),
      from_layer = i, to_layer = i + 1,
      c_z_index = connective_z_index env
                    (if isinstance (ls ! i) FeedForwardLayer_class
                     then FeedForwardToFeedForward ew else ImageToFeedForward dr) i\<rparr>"

definition warning_for :: "layer list \<Rightarrow> nat \<Rightarrow> warning" where
  "warning_for ls i = Unimplemented_connection (layer_type (ls ! i)) (layer_type (ls ! (i + 1)))"

definition display_at :: "layer list \<Rightarrow> nat \<Rightarrow> element list" where
  "display_at ls i =
     Layer_ref i #
       (if adjacent_supported ls i
        then [Connective_ref (length (filter (adjacent_supported ls) [0..<i]))] else [])"

text \<open>A concrete environment and concrete layers, for evaluating the definitions.\<close>

definition sample_env :: environment where
  "sample_env = \<lparr>frame_width = 14, group_center = (\<lambda>ls cs. ORIGIN),
                 connective_z_index = (\<lambda>v i. 3 + int i)\<rparr>"

definition sample_layer :: "layer_class \<Rightarrow> point \<Rightarrow> real \<Rightarrow> layer" where
  "sample_layer c p w = \<lparr>layer_type = c, center = p, width = w, height = 1, z_index = 0\<rparr>"

definition sample_chain :: "layer list" where
  "sample_chain =
     [sample_layer ImageLayer_class (0, 0, 0) 4,
      sample_layer FeedForwardLayer_class (0, 0, 0) 1,
      sample_layer FeedForwardLayer_class (0, 0, 0) 2]"

definition sample_mixed :: "layer list" where
  "sample_mixed =
     [sample_layer FeedForwardLayer_class (0, 0, 0) 1,
      sample_layer ImageLayer_class (0, 1, 0) 3,
      sample_layer FeedForwardLayer_class (0, 0, 0) 2]"

definition sample_geom :: "int \<Rightarrow> real \<Rightarrow> point \<times> real \<times> real" where
  "sample_geom num_nodes node_radius =
     ((0, 0, 0), 4 * node_radius, 3 * node_radius * real_of_int num_nodes)"

section \<open>Layout: properties\<close>

lemma center_move_to: "center (move_to l p) = p"
  by (cases p; cases "center l") (simp add: move_to_def shift_def get_center_def)

lemma width_shift: "width (shift l v) = width l"
  by (simp add: shift_def)

lemma width_move_to: "width (move_to l p) = width l"
  by (simp add: move_to_def width_shift)

lemma length_place_step: "length (place_step env i ls) = length ls"
  by (simp add: place_step_def Let_def)

lemma length_fold_place: "length (fold (place_step env) idxs ls) = length ls"
  by (induction idxs arbitrary: ls) (simp_all add: length_place_step)


lemma place_step_nth_other: "j \<noteq> i \<Longrightarrow> place_step env i ls ! j = ls ! j"
  by (simp add: place_step_def Let_def)

lemma place_step_nth_same:
  "i < length ls \<Longrightarrow>
   place_step env i ls ! i =
     shift (move_to (ls ! i) (get_center (ls ! (i - 1))))
       (frame_width env * 0.05 + (width (ls ! (i - 1)) / 2 + width (ls ! i) / 2), 0, 0)"
  by (simp add: place_step_def Let_def)

lemma fold_place_nth_untouched:
  "n \<le> j \<or> j = 0 \<Longrightarrow> fold (place_step env) [1..<n] ls ! j = ls ! j"
proof (induction n)
  case 0
  then show ?case by simp
next
  case (Suc n)
  show ?case
  proof (cases "1 \<le> n")
    case True
    with Suc show ?thesis by (auto simp: place_step_nth_other)
  next
    case False
    then show ?thesis by simp
  qed
qed


lemma same_shape_place_step:
  "j < length ls \<Longrightarrow> same_shape (place_step env i ls ! j) (ls ! j)"
  by (cases "j = i") (simp_all add: place_step_def Let_def same_shape_def shift_def move_to_def)

lemma same_shape_width: "same_shape a b \<Longrightarrow> width a = width b"
  unfolding same_shape_def by (erule ssubst) simp

lemma same_shape_type: "same_shape a b \<Longrightarrow> layer_type a = layer_type b"
  unfolding same_shape_def by (erule ssubst) simp

lemma same_shape_refl: "same_shape a a"
  by (simp add: same_shape_def)

lemma same_shape_trans: "same_shape a b \<Longrightarrow> same_shape b c \<Longrightarrow> same_shape a c"
  unfolding same_shape_def by (metis layer.update_convs(2) layer.surjective layer.simps)

lemma same_shape_fold_place:
  "j < length ls \<Longrightarrow> same_shape (fold (place_step env) [1..<n] ls ! j) (ls ! j)"
proof (induction n)
  case 0
  then show ?case by (simp add: same_shape_def)
next
  case (Suc n)
  show ?case
  proof (cases "1 \<le> n")
    case True
    have "same_shape (place_step env n (fold (place_step env) [1..<n] ls) ! j) (fold (place_step env) [1..<n] ls ! j)"
      using Suc.prems by (intro same_shape_place_step) (simp add: length_fold_place)
    moreover have "same_shape (fold (place_step env) [1..<n] ls ! j) (ls ! j)"
      using Suc by simp
    ultimately have "same_shape (place_step env n (fold (place_step env) [1..<n] ls) ! j) (ls ! j)"
      by (rule same_shape_trans)
    with True show ?thesis by simp
  next
    case False
    then show ?thesis by (simp add: same_shape_refl)
  qed
qed

lemma fold_place_center:
  "1 \<le> j \<Longrightarrow> j < n \<Longrightarrow> n \<le> length ls \<Longrightarrow>
   center (fold (place_step env) [1..<n] ls ! j) =
     padd (center (fold (place_step env) [1..<n] ls ! (j - 1)))
          (frame_width env * 0.05 + (width (ls ! (j - 1)) / 2 + width (ls ! j) / 2), 0, 0)"
proof (induction n)
  case 0
  then show ?case by simp
next
  case (Suc n)
  let ?r = "fold (place_step env) [1..<n] ls"
  have n1: "1 \<le> n" using Suc.prems by simp
  have len: "length ?r = length ls" by (rule length_fold_place)
  have step: "fold (place_step env) [1..<Suc n] ls = place_step env n ?r"
    using n1 by simp
  show ?case
  proof (cases "j = n")
    case True
    have "place_step env n ?r ! n =
        shift (move_to (?r ! n) (get_center (?r ! (n - 1))))
          (frame_width env * 0.05 + (width (?r ! (n - 1)) / 2 + width (?r ! n) / 2), 0, 0)"
      using Suc.prems len by (intro place_step_nth_same) simp
    moreover have "width (?r ! (n - 1)) = width (ls ! (n - 1))" "width (?r ! n) = width (ls ! n)"
      using same_shape_fold_place[of "n - 1" ls env n] same_shape_fold_place[of n ls env n] Suc.prems
      by (simp_all add: same_shape_width)
    moreover have "place_step env n ?r ! (n - 1) = ?r ! (n - 1)"
      using n1 by (intro place_step_nth_other) simp
    ultimately show ?thesis
      unfolding step True by (simp add: shift_def center_move_to get_center_def)
  next
    case False
    then have jn: "j < n" using Suc.prems by simp
    have "place_step env n ?r ! j = ?r ! j" "place_step env n ?r ! (j - 1) = ?r ! (j - 1)"
      using jn by (simp_all add: place_step_nth_other)
    then show ?thesis unfolding step using Suc.IH[OF Suc.prems(1) jn] Suc.prems by simp
  qed
qed



lemma nth_set_z_index: "i < length ls \<Longrightarrow> set_z_index z ls ! i = (ls ! i)\<lparr>z_index := z\<rparr>"
  by (simp add: set_z_index_def)

lemma length_place_layers: "length (place_layers env ls) = length ls"
  by (simp add: place_layers_def place_loop_def set_z_index_def length_fold_place)

lemma center_place_layers:
  "i < length ls \<Longrightarrow> center (place_layers env ls ! i) = center (place_loop env ls ! i)"
  by (simp add: place_layers_def place_loop_def nth_set_z_index length_fold_place)

lemma width_place_layers:
  "i < length ls \<Longrightarrow> width (place_layers env ls ! i) = width (ls ! i)"
  using same_shape_width[OF same_shape_fold_place[of i ls env "length ls"]]
  by (simp add: place_layers_def place_loop_def nth_set_z_index length_fold_place)

lemma px_padd: "px (padd p (s, a, b)) = px p + s"
  by (cases p) simp

lemma py_padd0: "py (padd p (s, 0, 0)) = py p"
  by (cases p) simp

lemma pz_padd0: "pz (padd p (s, 0, 0)) = pz p"
  by (cases p) simp

text \<open>
  Claim C2. For a sequence of at least two layers, after \<^verbatim>\<open>_place_layers\<close> (before the
  recentring of the constructor) the first layer's centre is unchanged, the widths are
  unchanged, and the centre of every layer \<open>i \<ge> 1\<close> is the centre of layer \<open>i - 1\<close> moved
  along the horizontal axis by \<open>0.05 * frame_width + width (i - 1) / 2 + width i / 2\<close>.
  With a frame width that is not negative, consecutive centres are therefore at least the
  sum of the two half-widths apart horizontally.
\<close>

theorem place_layers_spacing:
  assumes "2 \<le> length ls"
  shows "length (place_layers env ls) = length ls
    \<and> center (place_layers env ls ! 0) = center (ls ! 0)
    \<and> (\<forall>i. 1 \<le> i \<and> i < length ls \<longrightarrow>
          width (place_layers env ls ! (i - 1)) = width (ls ! (i - 1))
        \<and> width (place_layers env ls ! i) = width (ls ! i)
        \<and> center (place_layers env ls ! i) =
            padd (center (place_layers env ls ! (i - 1)))
                 (0.05 * frame_width env + width (ls ! (i - 1)) / 2 + width (ls ! i) / 2, 0, 0)
        \<and> (0 \<le> frame_width env \<longrightarrow>
            width (ls ! (i - 1)) / 2 + width (ls ! i) / 2
              \<le> px (center (place_layers env ls ! i))
                  - px (center (place_layers env ls ! (i - 1)))))"
proof (intro conjI allI impI)
  show "length (place_layers env ls) = length ls" by (rule length_place_layers)
  have "0 < length ls" using assms by linarith
  then have "center (place_layers env ls ! 0) = center (place_loop env ls ! 0)"
    by (rule center_place_layers)
  then show "center (place_layers env ls ! 0) = center (ls ! 0)"
    using fold_place_nth_untouched[of "length ls" 0 env ls]
    by (simp add: place_loop_def)
next
  fix i assume i: "1 \<le> i \<and> i < length ls"
  then have i1: "i - 1 < length ls" and i2: "i < length ls" and i3: "1 \<le> i"
    by arith+
  show "width (place_layers env ls ! (i - 1)) = width (ls ! (i - 1))"
    using i1 by (rule width_place_layers)
  show "width (place_layers env ls ! i) = width (ls ! i)"
    using i2 by (rule width_place_layers)
  have c: "center (place_layers env ls ! i) =
            padd (center (place_layers env ls ! (i - 1)))
                 (frame_width env * 0.05 + (width (ls ! (i - 1)) / 2 + width (ls ! i) / 2), 0, 0)"
    using fold_place_center[OF i3 i2 order_refl, of env]
      center_place_layers[OF i1, of env] center_place_layers[OF i2, of env]
    by (simp add: place_loop_def)
  then show "center (place_layers env ls ! i) =
            padd (center (place_layers env ls ! (i - 1)))
                 (0.05 * frame_width env + width (ls ! (i - 1)) / 2 + width (ls ! i) / 2, 0, 0)"
    by (simp add: algebra_simps)
  assume "0 \<le> frame_width env"
  then show "width (ls ! (i - 1)) / 2 + width (ls ! i) / 2
              \<le> px (center (place_layers env ls ! i))
                  - px (center (place_layers env ls ! (i - 1)))"
    unfolding c px_padd by simp
qed

lemma sample_place:
  "place_layers sample_env
      [sample_layer FeedForwardLayer_class (0, 0, 0) 1, sample_layer ImageLayer_class (0, 1, 0) 3] =
   [\<lparr>layer_type = FeedForwardLayer_class, center = (0, 0, 0), width = 1, height = 1, z_index = 2\<rparr>,
    \<lparr>layer_type = ImageLayer_class, center = (27 / 10, 0, 0), width = 3, height = 1, z_index = 2\<rparr>]"
  by (simp add: place_layers_def place_loop_def place_step_def set_z_index_def sample_env_def
      sample_layer_def move_to_def shift_def get_center_def)

theorem place_layers_spacing_witness:
  "2 \<le> length [sample_layer FeedForwardLayer_class (0, 0, 0) 1, sample_layer ImageLayer_class (0, 1, 0) 3]
   \<and> 0 \<le> frame_width sample_env
   \<and> center (place_layers sample_env
        [sample_layer FeedForwardLayer_class (0, 0, 0) 1, sample_layer ImageLayer_class (0, 1, 0) 3] ! 1)
       = (0.05 * 14 + 1 / 2 + 3 / 2, 0, 0)
   \<and> 1 / 2 + 3 / 2 \<le> px (center (place_layers sample_env
        [sample_layer FeedForwardLayer_class (0, 0, 0) 1, sample_layer ImageLayer_class (0, 1, 0) 3] ! 1))
       - px (center (place_layers sample_env
        [sample_layer FeedForwardLayer_class (0, 0, 0) 1, sample_layer ImageLayer_class (0, 1, 0) 3] ! 0))"
  using place_layers_spacing[of "[sample_layer FeedForwardLayer_class (0, 0, 0) 1, sample_layer ImageLayer_class (0, 1, 0) 3]" sample_env]
  by (simp add: sample_env_def sample_layer_def)

text \<open>
  Claim C9 as stated fails: a layer whose centre is at height 1 before layout, placed
  after a layer at height 0, is at height 0 after layout.
\<close>

theorem place_layers_vertical_counterexample:
  "py (center (place_layers sample_env
        [sample_layer FeedForwardLayer_class (0, 0, 0) 1, sample_layer ImageLayer_class (0, 1, 0) 3] ! 1))
   \<noteq> py (center (sample_layer ImageLayer_class (0, 1, 0) 3))"
  by (simp add: sample_place) (simp add: sample_layer_def)

lemma place_loop_yz:
  "i < length ls \<Longrightarrow>
   py (center (place_loop env ls ! i)) = py (center (ls ! 0))
   \<and> pz (center (place_loop env ls ! i)) = pz (center (ls ! 0))"
proof (induction i)
  case 0
  then show ?case
    using fold_place_nth_untouched[of "length ls" 0 env ls] by (simp add: place_loop_def)
next
  case (Suc i)
  have "center (place_loop env ls ! Suc i) =
     padd (center (place_loop env ls ! i))
          (frame_width env * 0.05 + (width (ls ! i) / 2 + width (ls ! Suc i) / 2), 0, 0)"
    using fold_place_center[of "Suc i" "length ls" ls env] Suc.prems
    by (simp add: place_loop_def)
  moreover have "i < length ls" using Suc.prems by simp
  ultimately show ?case using Suc.IH by (simp add: py_padd0 pz_padd0)
qed

text \<open>
  Claim C9, as amended. \<^verbatim>\<open>move_to(previous_layer.get_center())\<close> moves a layer onto the
  whole centre of its predecessor, so after \<^verbatim>\<open>_place_layers\<close> every layer has the vertical
  and depth coordinates of the first layer's centre before layout; a layer's own
  coordinates before layout are kept only where they equal the first layer's.
\<close>

theorem place_layers_vertical:
  assumes "i < length ls"
  shows "py (center (place_layers env ls ! i)) = py (center (ls ! 0))
       \<and> pz (center (place_layers env ls ! i)) = pz (center (ls ! 0))"
  using place_loop_yz[OF assms, of env] center_place_layers[OF assms, of env] by simp

theorem place_layers_vertical_witness:
  "(1::nat) < length [sample_layer FeedForwardLayer_class (0, 0, 0) 1, sample_layer ImageLayer_class (0, 1, 0) 3]
   \<and> py (center (place_layers sample_env
        [sample_layer FeedForwardLayer_class (0, 0, 0) 1, sample_layer ImageLayer_class (0, 1, 0) 3] ! 1)) = 0
   \<and> pz (center (place_layers sample_env
        [sample_layer FeedForwardLayer_class (0, 0, 0) 1, sample_layer ImageLayer_class (0, 1, 0) 3] ! 1)) = 0"
  using place_layers_vertical[of 1 "[sample_layer FeedForwardLayer_class (0, 0, 0) 1, sample_layer ImageLayer_class (0, 1, 0) 3]" sample_env]
  by (simp add: sample_layer_def)

section \<open>Connector synthesis and construction: closed forms\<close>

lemma connect_step_closed:
  "connect_step env ls ew dr i (cs, als, ws) =
     (if adjacent_supported ls i
      then (cs @ [connector_for env ls ew dr i], als @ [Layer_ref i, Connective_ref (length cs)], ws)
      else (cs, als @ [Layer_ref i], ws @ [warning_for ls i]))"
  by (auto simp: connect_step_def Let_def adjacent_supported_def supported_def connector_for_def
      warning_for_def isinstance_def)

lemma connect_fold:
  "fold (connect_step env ls ew dr) [0..<n] ([], [], []) =
     (map (connector_for env ls ew dr) (filter (adjacent_supported ls) [0..<n]),
      concat (map (display_at ls) [0..<n]),
      map (warning_for ls) (filter (\<lambda>i. \<not> adjacent_supported ls i) [0..<n]))"
  by (induction n) (simp_all add: connect_step_closed display_at_def)

lemma py_index_last: "xs \<noteq> [] \<Longrightarrow> py_index xs (- 1) = Inr (length xs - 1)"
  by (cases xs) (simp_all add: py_index_def nat_add_distrib)

lemma py_index_last_empty: "py_index [] (- 1) = Inl IndexError"
  by (simp add: py_index_def)

lemma py_index_nat:
  "py_index xs (int i) = (if i < length xs then Inr i else Inl IndexError)"
  by (simp add: py_index_def)

lemma construct_connective_layers_closed:
  "ls \<noteq> [] \<Longrightarrow>
   construct_connective_layers env ls ew dr =
     Inr (set_z_index_connective 0
            (map (connector_for env ls ew dr) (filter (adjacent_supported ls) [0..<length ls - 1])),
          concat (map (display_at ls) [0..<length ls - 1]) @ [Layer_ref (length ls - 1)],
          map (warning_for ls) (filter (\<lambda>i. \<not> adjacent_supported ls i) [0..<length ls - 1]))"
  by (simp add: construct_connective_layers_def connect_loop_def connect_fold py_index_last)

lemma construct_connective_layers_empty:
  "construct_connective_layers env [] ew dr = Inl IndexError"
  by (simp add: construct_connective_layers_def connect_loop_def py_index_last_empty)

lemma place_layers_Nil: "place_layers env [] = []"
  by (simp add: place_layers_def place_loop_def set_z_index_def)

lemma place_layers_eq_Nil: "place_layers env ls = [] \<longleftrightarrow> ls = []"
  using length_place_layers[of env ls] by (metis length_0_conv)

lemma layer_type_place_layers:
  "i < length ls \<Longrightarrow> layer_type (place_layers env ls ! i) = layer_type (ls ! i)"
  using same_shape_type[OF same_shape_fold_place[of i ls env "length ls"]]
  by (simp add: place_layers_def place_loop_def nth_set_z_index length_fold_place)

lemma adjacent_supported_place_layers:
  "i + 1 < length ls \<Longrightarrow> adjacent_supported (place_layers env ls) i = adjacent_supported ls i"
  by (simp add: adjacent_supported_def supported_def isinstance_def layer_type_place_layers)

lemma filter_supported_place_layers:
  "n < length ls \<Longrightarrow>
   filter (adjacent_supported (place_layers env ls)) [0..<n] = filter (adjacent_supported ls) [0..<n]"
  by (rule filter_cong) (auto simp: adjacent_supported_place_layers)

lemma filter_unsupported_place_layers:
  "n < length ls \<Longrightarrow>
   filter (\<lambda>i. \<not> adjacent_supported (place_layers env ls) i) [0..<n] =
   filter (\<lambda>i. \<not> adjacent_supported ls i) [0..<n]"
  by (rule filter_cong) (auto simp: adjacent_supported_place_layers)

lemma connector_for_place_layers:
  "i + 1 < length ls \<Longrightarrow> connector_for env (place_layers env ls) ew dr i = connector_for env ls ew dr i"
  by (simp add: connector_for_def isinstance_def layer_type_place_layers)

lemma warning_for_place_layers:
  "i + 1 < length ls \<Longrightarrow> warning_for (place_layers env ls) i = warning_for ls i"
  by (simp add: warning_for_def layer_type_place_layers)

lemma display_at_place_layers:
  assumes "i + 1 < length ls"
  shows "display_at (place_layers env ls) i = display_at ls i"
proof -
  have "i < length ls" using assms by simp
  then show ?thesis
    using assms
    by (simp add: display_at_def adjacent_supported_place_layers filter_supported_place_layers)
qed

lemma NeuralNetwork_init_closed:
  assumes "ls \<noteq> []"
  shows "\<exists>v. NeuralNetwork_init env ls ecol lsp adcol ew dr =
     Inr (\<lparr>input_layers = map (\<lambda>l. shift l v) (place_layers env ls),
           connective_layers = set_z_index_connective 0
             (map (connector_for env ls ew dr) (filter (adjacent_supported ls) [0..<length ls - 1])),
           all_layers = concat (map (display_at ls) [0..<length ls - 1]) @ [Layer_ref (length ls - 1)],
           edge_width = ew, edge_color = ecol, layer_spacing = lsp,
           animation_dot_color = adcol, dot_radius = dr\<rparr>,
          map (warning_for ls) (filter (\<lambda>i. \<not> adjacent_supported ls i) [0..<length ls - 1]))"
proof -
  let ?P = "place_layers env ls"
  define n where "n = length ls - 1"
  have n: "n < length ls" using assms by (simp add: n_def)
  have ne: "?P \<noteq> []" using assms by (simp add: place_layers_eq_Nil)
  have len: "length ?P - 1 = n" by (simp add: length_place_layers n_def)
  have fs: "filter (adjacent_supported ?P) [0..<n] = filter (adjacent_supported ls) [0..<n]"
    using n by (rule filter_supported_place_layers)
  have fu: "filter (\<lambda>i. \<not> adjacent_supported ?P i) [0..<n]
      = filter (\<lambda>i. \<not> adjacent_supported ls i) [0..<n]"
    using n by (rule filter_unsupported_place_layers)
  have cs: "map (connector_for env ?P ew dr) (filter (adjacent_supported ls) [0..<n])
      = map (connector_for env ls ew dr) (filter (adjacent_supported ls) [0..<n])"
    using n by (intro map_cong) (auto simp: connector_for_place_layers)
  have ws: "map (warning_for ?P) (filter (\<lambda>i. \<not> adjacent_supported ls i) [0..<n])
      = map (warning_for ls) (filter (\<lambda>i. \<not> adjacent_supported ls i) [0..<n])"
    using n by (intro map_cong) (auto simp: warning_for_place_layers)
  have als: "map (display_at ?P) [0..<n] = map (display_at ls) [0..<n]"
    using n by (intro map_cong) (auto simp: display_at_place_layers)
  have c: "construct_connective_layers env ?P ew dr =
     Inr (set_z_index_connective 0
            (map (connector_for env ls ew dr) (filter (adjacent_supported ls) [0..<n])),
          concat (map (display_at ls) [0..<n]) @ [Layer_ref n],
          map (warning_for ls) (filter (\<lambda>i. \<not> adjacent_supported ls i) [0..<n]))"
    unfolding construct_connective_layers_closed[OF ne] len fs fu cs ws als ..
  show ?thesis
    unfolding NeuralNetwork_init_def Let_def c n_def[symmetric]
    by (rule exI[of _ "psub ORIGIN (group_center env ?P (set_z_index_connective 0
            (map (connector_for env ls ew dr) (filter (adjacent_supported ls) [0..<n]))))"]) simp
qed

lemma NeuralNetwork_init_empty:
  "NeuralNetwork_init env [] ecol lsp adcol ew dr = Inl IndexError"
  by (simp add: NeuralNetwork_init_def place_layers_Nil construct_connective_layers_empty)

section \<open>Connector synthesis: claims\<close>

lemma filter_all_upt: "(\<forall>i<n. P i) \<Longrightarrow> filter P [0..<n] = [0..<n]"
  by (simp add: filter_id_conv)

lemma display_at_all_supported:
  "(\<forall>j\<le>i. adjacent_supported ls j) \<Longrightarrow> display_at ls i = [Layer_ref i, Connective_ref i]"
  by (simp add: display_at_def filter_all_upt)

lemma nth_set_z_index_connective:
  "i < length cs \<Longrightarrow> set_z_index_connective z cs ! i = (cs ! i)\<lparr>c_z_index := z\<rparr>"
  by (simp add: set_z_index_connective_def)

lemma length_set_z_index_connective: "length (set_z_index_connective z cs) = length cs"
  by (simp add: set_z_index_connective_def)

text \<open>
  Claim C3. Where every adjacent pair of layers is (FeedForward, FeedForward) or
  (Image, FeedForward), the constructor gives no warning and builds exactly \<open>N - 1\<close>
  connectors; connector \<open>i\<close> goes from layer \<open>i\<close> to layer \<open>i + 1\<close> and is of the variant of
  that pair, and the display group is \<open>[L0, C0, L1, C1, \<dots>, L(N-1)]\<close>.
\<close>

theorem all_supported_connectors:
  assumes "ls \<noteq> []"
    and "\<forall>i. i + 1 < length ls \<longrightarrow> supported (ls ! i) (ls ! (i + 1))"
  shows "\<exists>nn. NeuralNetwork_init env ls ecol lsp adcol ew dr = Inr (nn, [])
     \<and> length (input_layers nn) = length ls
     \<and> length (connective_layers nn) = length ls - 1
     \<and> (\<forall>i. i + 1 < length ls \<longrightarrow>
           from_layer (connective_layers nn ! i) = i
         \<and> to_layer (connective_layers nn ! i) = i + 1
         \<and> variant (connective_layers nn ! i) =
             (if layer_type (ls ! i) = FeedForwardLayer_class
              then FeedForwardToFeedForward ew else ImageToFeedForward dr))
     \<and> all_layers nn =
         concat (map (\<lambda>i. [Layer_ref i, Connective_ref i]) [0..<length ls - 1])
         @ [Layer_ref (length ls - 1)]"
proof -
  define n where "n = length ls - 1"
  have sup: "\<forall>i<n. adjacent_supported ls i"
    using assms(2) by (simp add: adjacent_supported_def n_def)
  then have f1: "filter (adjacent_supported ls) [0..<n] = [0..<n]"
    by (rule filter_all_upt)
  have f2: "filter (\<lambda>i. \<not> adjacent_supported ls i) [0..<n] = []"
    using sup by simp
  have d: "map (display_at ls) [0..<n] = map (\<lambda>i. [Layer_ref i, Connective_ref i]) [0..<n]"
    using sup by (intro map_cong) (auto simp: display_at_all_supported)
  obtain v where
    "NeuralNetwork_init env ls ecol lsp adcol ew dr =
     Inr (\<lparr>input_layers = map (\<lambda>l. shift l v) (place_layers env ls),
           connective_layers = set_z_index_connective 0 (map (connector_for env ls ew dr) [0..<n]),
           all_layers = concat (map (\<lambda>i. [Layer_ref i, Connective_ref i]) [0..<n]) @ [Layer_ref n],
           edge_width = ew, edge_color = ecol, layer_spacing = lsp,
           animation_dot_color = adcol, dot_radius = dr\<rparr>, [])"
    using NeuralNetwork_init_closed[OF assms(1), of env ecol lsp adcol ew dr]
    unfolding n_def[symmetric] f1 f2 d by auto
  moreover have "\<forall>i. i + 1 < length ls \<longrightarrow> i < n" unfolding n_def by arith
  ultimately show ?thesis
    unfolding n_def[symmetric]
    by (simp add: length_place_layers length_set_z_index_connective
        set_z_index_connective_def connector_for_def isinstance_def)
qed

lemma sample_chain_supported:
  "\<forall>i. i + 1 < length sample_chain \<longrightarrow> supported (sample_chain ! i) (sample_chain ! (i + 1))"
  by (auto simp: sample_chain_def sample_layer_def supported_def isinstance_def nth_Cons
      split: nat.splits)

theorem all_supported_connectors_witness:
  "sample_chain \<noteq> []
   \<and> length sample_chain = 3
   \<and> supported (sample_chain ! 0) (sample_chain ! 1)
   \<and> supported (sample_chain ! 1) (sample_chain ! 2)
   \<and> (\<exists>nn. NeuralNetwork sample_env sample_chain = Inr (nn, [])
        \<and> length (connective_layers nn) = 2
        \<and> from_layer (connective_layers nn ! 0) = 0 \<and> to_layer (connective_layers nn ! 0) = 1
        \<and> variant (connective_layers nn ! 0) = ImageToFeedForward 0.03
        \<and> from_layer (connective_layers nn ! 1) = 1 \<and> to_layer (connective_layers nn ! 1) = 2
        \<and> variant (connective_layers nn ! 1) = FeedForwardToFeedForward 1.5
        \<and> all_layers nn =
             [Layer_ref 0, Connective_ref 0, Layer_ref 1, Connective_ref 1, Layer_ref 2])"
proof -
  have h1: "sample_chain \<noteq> []" by (simp add: sample_chain_def)
  have len: "length sample_chain = 3" by (simp add: sample_chain_def)
  have u: "[0..<2] = [0, 1]" by (simp add: upt_rec)
  obtain nn where nn: "NeuralNetwork_init sample_env sample_chain WHITE 0.8 RED 1.5 0.03 = Inr (nn, [])"
     "length (connective_layers nn) = length sample_chain - 1"
     "\<forall>i. i + 1 < length sample_chain \<longrightarrow>
           from_layer (connective_layers nn ! i) = i
         \<and> to_layer (connective_layers nn ! i) = i + 1
         \<and> variant (connective_layers nn ! i) =
             (if layer_type (sample_chain ! i) = FeedForwardLayer_class
              then FeedForwardToFeedForward 1.5 else ImageToFeedForward 0.03)"
     "all_layers nn =
         concat (map (\<lambda>i. [Layer_ref i, Connective_ref i]) [0..<length sample_chain - 1])
         @ [Layer_ref (length sample_chain - 1)]"
    using all_supported_connectors[OF h1 sample_chain_supported, of sample_env WHITE "0.8" RED "1.5" "0.03"]
    by blast
  have "0 + 1 < length sample_chain" "1 + 1 < length sample_chain" by (simp_all add: len)
  with nn(3) have
    "from_layer (connective_layers nn ! 0) = 0 \<and> to_layer (connective_layers nn ! 0) = 1
      \<and> variant (connective_layers nn ! 0) = ImageToFeedForward 0.03"
    "from_layer (connective_layers nn ! 1) = 1 \<and> to_layer (connective_layers nn ! 1) = 2
      \<and> variant (connective_layers nn ! 1) = FeedForwardToFeedForward 1.5"
    by (auto simp: sample_chain_def sample_layer_def)
  moreover have "supported (sample_chain ! 0) (sample_chain ! 1)"
    "supported (sample_chain ! 1) (sample_chain ! 2)"
    by (simp_all add: sample_chain_def sample_layer_def supported_def isinstance_def)
  ultimately show ?thesis
    using nn(1,2,4) h1 by (simp add: NeuralNetwork_def len u)
qed

lemma filter_upt_short:
  assumes "i < n" "\<not> P i"
  shows "length (filter P [0..<n]) < n"
proof -
  have "i \<in> set [0..<n]" using assms by simp
  then have "length (filter P [0..<n]) < length [0..<n]"
    using assms(2) by (intro length_filter_less)
  then show ?thesis by simp
qed

text \<open>
  Claim C4. For an adjacent pair that is neither (FeedForward, FeedForward) nor
  (Image, FeedForward), the constructor still returns a diagram over all the layers; the
  warning naming the two classes is among the warnings given, no connector starts at the
  first layer of the pair, the connectors are fewer than \<open>N - 1\<close>, and the display group
  ends with the last layer.
\<close>

theorem unsupported_adjacency_skipped:
  assumes "i + 1 < length ls"
    and "\<not> supported (ls ! i) (ls ! (i + 1))"
  shows "\<exists>nn ws. NeuralNetwork_init env ls ecol lsp adcol ew dr = Inr (nn, ws)
     \<and> Unimplemented_connection (layer_type (ls ! i)) (layer_type (ls ! (i + 1))) \<in> set ws
     \<and> (\<forall>c \<in> set (connective_layers nn). from_layer c \<noteq> i)
     \<and> length (connective_layers nn) < length ls - 1
     \<and> length (input_layers nn) = length ls
     \<and> last (all_layers nn) = Layer_ref (length ls - 1)"
proof -
  define n where "n = length ls - 1"
  have i: "i < n" using assms(1) unfolding n_def by arith
  have ne: "ls \<noteq> []" using assms(1) by auto
  have unsup: "\<not> adjacent_supported ls i"
    using assms(2) by (simp add: adjacent_supported_def)
  obtain v where nn:
    "NeuralNetwork_init env ls ecol lsp adcol ew dr =
     Inr (\<lparr>input_layers = map (\<lambda>l. shift l v) (place_layers env ls),
           connective_layers = set_z_index_connective 0
             (map (connector_for env ls ew dr) (filter (adjacent_supported ls) [0..<n])),
           all_layers = concat (map (display_at ls) [0..<n]) @ [Layer_ref n],
           edge_width = ew, edge_color = ecol, layer_spacing = lsp,
           animation_dot_color = adcol, dot_radius = dr\<rparr>,
          map (warning_for ls) (filter (\<lambda>i. \<not> adjacent_supported ls i) [0..<n]))"
    using NeuralNetwork_init_closed[OF ne, of env ecol lsp adcol ew dr]
    unfolding n_def[symmetric] by auto
  have w: "Unimplemented_connection (layer_type (ls ! i)) (layer_type (ls ! (i + 1)))
      \<in> set (map (warning_for ls) (filter (\<lambda>i. \<not> adjacent_supported ls i) [0..<n]))"
    using i unsup by (auto simp: warning_for_def image_iff)
  have c: "\<forall>c \<in> set (set_z_index_connective 0
             (map (connector_for env ls ew dr) (filter (adjacent_supported ls) [0..<n]))).
           from_layer c \<noteq> i"
    using unsup by (auto simp: set_z_index_connective_def connector_for_def)
  have l: "length (set_z_index_connective 0
             (map (connector_for env ls ew dr) (filter (adjacent_supported ls) [0..<n]))) < n"
    using filter_upt_short[of i n "adjacent_supported ls", OF i unsup] by (simp add: set_z_index_connective_def)
  show ?thesis
    unfolding nn n_def[symmetric] using w c l
    by (simp add: length_place_layers)
qed

lemma sample_mixed_unsupported:
  "0 + 1 < length sample_mixed \<and> \<not> supported (sample_mixed ! 0) (sample_mixed ! (0 + 1))"
  by (simp add: sample_mixed_def sample_layer_def supported_def isinstance_def)

theorem unsupported_adjacency_skipped_witness:
  "0 + 1 < length sample_mixed
   \<and> \<not> supported (sample_mixed ! 0) (sample_mixed ! (0 + 1))
   \<and> (\<exists>nn ws. NeuralNetwork sample_env sample_mixed = Inr (nn, ws)
        \<and> Unimplemented_connection FeedForwardLayer_class ImageLayer_class \<in> set ws
        \<and> (\<forall>c \<in> set (connective_layers nn). from_layer c \<noteq> 0)
        \<and> length (connective_layers nn) < 2
        \<and> last (all_layers nn) = Layer_ref 2)"
proof -
  have h1: "0 + 1 < length sample_mixed" using sample_mixed_unsupported by blast
  have h2: "\<not> supported (sample_mixed ! 0) (sample_mixed ! (0 + 1))"
    using sample_mixed_unsupported by blast
  have len: "length sample_mixed = 3" by (simp add: sample_mixed_def)
  have t: "layer_type (sample_mixed ! 0) = FeedForwardLayer_class"
    "layer_type (sample_mixed ! (0 + 1)) = ImageLayer_class"
    by (simp_all add: sample_mixed_def sample_layer_def)
  show ?thesis
    using unsupported_adjacency_skipped[OF h1 h2, of sample_env WHITE "0.8" RED "1.5" "0.03"] h1 h2
    unfolding NeuralNetwork_def t len by (simp, blast)
qed

text \<open>
  Claim C5. With an empty layer sequence the constructor ends with an exception and
  returns no diagram: \<^verbatim>\<open>self.input_layers[-1]\<close> raises \<^verbatim>\<open>IndexError\<close> in
  \<^verbatim>\<open>_construct_connective_layers\<close>, whatever the style options.
\<close>

theorem empty_layers_fail:
  "NeuralNetwork_init env [] ecol lsp adcol ew dr = Inl IndexError"
  by (rule NeuralNetwork_init_empty)

lemma z_index_shift: "z_index (shift l v) = z_index l"
  by (simp add: shift_def)

text \<open>
  Claim C8. For every non-empty layer sequence, of whatever classes, and whatever z-index
  the connective constructors give a new connector, construction completes with every
  layer at z-index 2 and every connector at z-index 0, so every layer is strictly above
  every connector.
\<close>

theorem layers_above_connectors:
  assumes "ls \<noteq> []"
  shows "\<exists>nn ws. NeuralNetwork_init env ls ecol lsp adcol ew dr = Inr (nn, ws)
     \<and> length (input_layers nn) = length ls
     \<and> (\<forall>l \<in> set (input_layers nn). z_index l = 2)
     \<and> (\<forall>c \<in> set (connective_layers nn). c_z_index c = 0)
     \<and> (\<forall>l \<in> set (input_layers nn). \<forall>c \<in> set (connective_layers nn). c_z_index c < z_index l)"
proof -
  obtain v where eq:
    "NeuralNetwork_init env ls ecol lsp adcol ew dr =
     Inr (\<lparr>input_layers = map (\<lambda>l. shift l v) (place_layers env ls),
           connective_layers = set_z_index_connective 0
             (map (connector_for env ls ew dr) (filter (adjacent_supported ls) [0..<length ls - 1])),
           all_layers = concat (map (display_at ls) [0..<length ls - 1]) @ [Layer_ref (length ls - 1)],
           edge_width = ew, edge_color = ecol, layer_spacing = lsp,
           animation_dot_color = adcol, dot_radius = dr\<rparr>,
          map (warning_for ls) (filter (\<lambda>i. \<not> adjacent_supported ls i) [0..<length ls - 1]))"
    using NeuralNetwork_init_closed[OF assms, of env ecol lsp adcol ew dr] by blast
  define nn where "nn = fst (projr (NeuralNetwork_init env ls ecol lsp adcol ew dr))"
  define ws where "ws = snd (projr (NeuralNetwork_init env ls ecol lsp adcol ew dr))"
  have nn: "NeuralNetwork_init env ls ecol lsp adcol ew dr = Inr (nn, ws)"
    "input_layers nn = map (\<lambda>l. shift l v) (place_layers env ls)"
    "connective_layers nn = set_z_index_connective 0
             (map (connector_for env ls ew dr) (filter (adjacent_supported ls) [0..<length ls - 1]))"
    unfolding nn_def ws_def eq by simp_all
  have a: "\<forall>l \<in> set (input_layers nn). z_index l = 2"
    unfolding nn(2) by (auto simp: z_index_shift place_layers_def set_z_index_def)
  have b: "\<forall>c \<in> set (connective_layers nn). c_z_index c = 0"
    unfolding nn(3) by (auto simp: set_z_index_connective_def)
  have c: "length (input_layers nn) = length ls"
    unfolding nn(2) by (simp add: length_place_layers)
  from a b have "\<forall>l \<in> set (input_layers nn). \<forall>c \<in> set (connective_layers nn). c_z_index c < z_index l"
    by simp
  with nn(1) a b c show ?thesis by blast
qed

lemma upt_0_2: "[0..<2] = [0, 1]"
  by (simp add: upt_rec)

lemma upt_1_3: "[1..<3] = [1, 2]"
  by (simp add: upt_rec)

lemma sample_mixed_network:
  "NeuralNetwork sample_env sample_mixed =
     Inr (\<lparr>input_layers =
            [\<lparr>layer_type = FeedForwardLayer_class, center = (0, 0, 0), width = 1, height = 1, z_index = 2\<rparr>,
             \<lparr>layer_type = ImageLayer_class, center = (27 / 10, 0, 0), width = 3, height = 1, z_index = 2\<rparr>,
             \<lparr>layer_type = FeedForwardLayer_class, center = (59 / 10, 0, 0), width = 2, height = 1, z_index = 2\<rparr>],
           connective_layers =
            [\<lparr>variant = ImageToFeedForward (3 / 100), from_layer = 1, to_layer = 2, c_z_index = 0\<rparr>],
           all_layers = [Layer_ref 0, Layer_ref 1, Connective_ref 0, Layer_ref 2],
           edge_width = 3 / 2, edge_color = WHITE, layer_spacing = 4 / 5,
           animation_dot_color = RED, dot_radius = 3 / 100\<rparr>,
          [Unimplemented_connection FeedForwardLayer_class ImageLayer_class])"
  by (simp add: NeuralNetwork_def NeuralNetwork_init_def construct_connective_layers_def
      connect_loop_def connect_step_def isinstance_def py_index_def set_z_index_connective_def
      place_layers_def place_loop_def place_step_def set_z_index_def move_to_def shift_def
      get_center_def sample_env_def sample_mixed_def sample_layer_def ORIGIN_def upt_0_2 upt_1_3)

theorem layers_above_connectors_witness:
  "sample_mixed \<noteq> []
   \<and> connective_z_index sample_env (ImageToFeedForward 0.03) 1 = 4
   \<and> (\<exists>nn ws. NeuralNetwork sample_env sample_mixed = Inr (nn, ws)
        \<and> length (input_layers nn) = 3
        \<and> length (connective_layers nn) = 1
        \<and> (\<forall>l \<in> set (input_layers nn). z_index l = 2)
        \<and> (\<forall>c \<in> set (connective_layers nn). c_z_index c = 0)
        \<and> (\<forall>l \<in> set (input_layers nn). \<forall>c \<in> set (connective_layers nn). c_z_index c < z_index l))"
proof -
  have h: "sample_mixed \<noteq> []" by (simp add: sample_mixed_def)
  have len: "length sample_mixed = 3" by (simp add: sample_mixed_def)
  have z: "connective_z_index sample_env (ImageToFeedForward 0.03) 1 = 4"
    by (simp add: sample_env_def)
  have one: "length (connective_layers nn) = 1"
    if "NeuralNetwork_init sample_env sample_mixed WHITE 0.8 RED 1.5 0.03 = Inr (nn, ws)" for nn ws
    using that sample_mixed_network unfolding NeuralNetwork_def by auto
  obtain nn ws where nn:
    "NeuralNetwork_init sample_env sample_mixed WHITE 0.8 RED 1.5 0.03 = Inr (nn, ws)"
    "length (input_layers nn) = length sample_mixed"
    "\<forall>l \<in> set (input_layers nn). z_index l = 2"
    "\<forall>c \<in> set (connective_layers nn). c_z_index c = 0"
    "\<forall>l \<in> set (input_layers nn). \<forall>c \<in> set (connective_layers nn). c_z_index c < z_index l"
    using layers_above_connectors[OF h, of sample_env WHITE "0.8" RED "1.5" "0.03"] by blast
  from nn one[OF nn(1)] h z show ?thesis
    unfolding NeuralNetwork_def len by blast
qed

section \<open>Forward pass animation\<close>

lemma forward_loop_ok:
  "(\<forall>i \<in> set idxs. i < length cs) \<Longrightarrow>
   forward_loop cs idxs acc =
     Inr (acc @ concat (map (\<lambda>i. [Layer_forward_pass i, Connective_forward_pass i]) idxs))"
  by (induction idxs arbitrary: acc) (simp_all add: py_index_nat)

lemma forward_loop_fails:
  "(\<exists>i \<in> set idxs. \<not> i < length cs) \<Longrightarrow> forward_loop cs idxs acc = Inl IndexError"
proof (induction idxs arbitrary: acc)
  case Nil
  then show ?case by simp
next
  case (Cons a idxs)
  show ?case
  proof (cases "a < length cs")
    case True
    with Cons.prems have "\<exists>i \<in> set idxs. \<not> i < length cs" by auto
    then show ?thesis using True Cons.IH by (simp add: py_index_nat)
  next
    case False
    then show ?thesis by (simp add: py_index_nat)
  qed
qed

lemma forward_pass_ok:
  assumes "input_layers nn \<noteq> []"
    and "length (input_layers nn) - 1 \<le> length (connective_layers nn)"
  shows "make_forward_pass_animation nn rt pf =
     Inr \<lparr>animations =
            concat (map (\<lambda>i. [Layer_forward_pass i, Connective_forward_pass i])
                        [0..<length (input_layers nn) - 1])
            @ [Layer_forward_pass (length (input_layers nn) - 1)],
          run_time = Some rt, lag_ratio = 1\<rparr>"
proof -
  have "\<forall>i \<in> set [0..<length (input_layers nn) - 1]. i < length (connective_layers nn)"
    using assms(2) by auto
  then show ?thesis
    unfolding make_forward_pass_animation_def
    by (simp only: forward_loop_ok py_index_last[OF assms(1)] sum.case append_Nil)
qed

lemma forward_pass_fails:
  assumes "length (connective_layers nn) < length (input_layers nn) - 1"
  shows "make_forward_pass_animation nn rt pf = Inl IndexError"
proof -
  have "\<exists>i \<in> set [0..<length (input_layers nn) - 1]. \<not> i < length (connective_layers nn)"
    using assms by (intro bexI[of _ "length (connective_layers nn)"]) simp_all
  then show ?thesis
    unfolding make_forward_pass_animation_def
    by (simp only: forward_loop_fails sum.case)
qed

lemma forward_pass_result:
  "make_forward_pass_animation nn rt pf = Inr g \<Longrightarrow> run_time g = Some rt \<and> lag_ratio g = 1"
  unfolding make_forward_pass_animation_def
  by (auto split: sum.splits)

lemma NeuralNetwork_init_lengths:
  assumes "NeuralNetwork_init env ls ecol lsp adcol ew dr = Inr (nn, ws)"
  shows "ls \<noteq> []"
    and "length (input_layers nn) = length ls"
    and "length (connective_layers nn) = length (filter (adjacent_supported ls) [0..<length ls - 1])"
proof -
  show ne: "ls \<noteq> []"
    using assms NeuralNetwork_init_empty by auto
  obtain v where eq:
    "NeuralNetwork_init env ls ecol lsp adcol ew dr =
     Inr (\<lparr>input_layers = map (\<lambda>l. shift l v) (place_layers env ls),
           connective_layers = set_z_index_connective 0
             (map (connector_for env ls ew dr) (filter (adjacent_supported ls) [0..<length ls - 1])),
           all_layers = concat (map (display_at ls) [0..<length ls - 1]) @ [Layer_ref (length ls - 1)],
           edge_width = ew, edge_color = ecol, layer_spacing = lsp,
           animation_dot_color = adcol, dot_radius = dr\<rparr>,
          map (warning_for ls) (filter (\<lambda>i. \<not> adjacent_supported ls i) [0..<length ls - 1]))"
    using NeuralNetwork_init_closed[OF ne, of env ecol lsp adcol ew dr] by blast
  from assms[unfolded eq] have nn:
    "nn = \<lparr>input_layers = map (\<lambda>l. shift l v) (place_layers env ls),
           connective_layers = set_z_index_connective 0
             (map (connector_for env ls ew dr) (filter (adjacent_supported ls) [0..<length ls - 1])),
           all_layers = concat (map (display_at ls) [0..<length ls - 1]) @ [Layer_ref (length ls - 1)],
           edge_width = ew, edge_color = ecol, layer_spacing = lsp,
           animation_dot_color = adcol, dot_radius = dr\<rparr>"
    by simp
  show "length (input_layers nn) = length ls"
    unfolding nn by (simp add: length_place_layers)
  show "length (connective_layers nn) = length (filter (adjacent_supported ls) [0..<length ls - 1])"
    unfolding nn by (simp add: set_z_index_connective_def)
qed

lemma skipped_connector_breaks_forward_pass:
  assumes "NeuralNetwork_init env ls ecol lsp adcol ew dr = Inr (nn, ws)"
    and "i + 1 < length ls"
    and "\<not> supported (ls ! i) (ls ! (i + 1))"
  shows "make_forward_pass_animation nn rt pf = Inl IndexError"
proof -
  have "i < length ls - 1" using assms(2) by arith
  moreover have "\<not> adjacent_supported ls i"
    using assms(3) by (simp add: adjacent_supported_def)
  ultimately have "length (filter (adjacent_supported ls) [0..<length ls - 1]) < length ls - 1"
    by (rule filter_upt_short)
  then have "length (connective_layers nn) < length (input_layers nn) - 1"
    using NeuralNetwork_init_lengths(2,3)[OF assms(1)] by simp
  then show ?thesis by (rule forward_pass_fails)
qed

text \<open>
  Claim C1 fails on the code. For the layers FeedForward, Image, FeedForward the
  constructor warns about the first adjacency and builds one connector, for the second
  adjacency, which sits at index 0 of \<^verbatim>\<open>connective_layers\<close>. The forward pass indexes
  \<^verbatim>\<open>connective_layers\<close> by the layer index: at layer 0 it takes the connector of
  adjacency 1, and at layer 1 the index is out of range and \<^verbatim>\<open>IndexError\<close> is raised.
\<close>

theorem forward_pass_skipped_connector_raises:
  "\<exists>nn. NeuralNetwork sample_env sample_mixed =
           Inr (nn, [Unimplemented_connection FeedForwardLayer_class ImageLayer_class])
      \<and> map from_layer (connective_layers nn) = [1]
      \<and> length (input_layers nn) = 3
      \<and> make_forward_pass_animation nn 10 True = Inl IndexError"
proof -
  have "make_forward_pass_animation
      (fst (projr (NeuralNetwork sample_env sample_mixed))) 10 True = Inl IndexError"
    unfolding sample_mixed_network
    by (simp add: make_forward_pass_animation_def py_index_def upt_0_2)
  then show ?thesis
    unfolding sample_mixed_network by simp
qed

text \<open>
  Claim C6. Whatever diagram the constructor returned, an animation group returned by
  \<^verbatim>\<open>make_forward_pass_animation\<close> was given the requested run time and lag ratio 1,
  and its duration is the requested run time, whatever the number of sub-animations and
  their own durations. Where all adjacent pairs are supported the group is returned, with
  the layers' and connectors' animations in chain order.
\<close>

theorem forward_pass_duration:
  assumes "NeuralNetwork_init env ls ecol lsp adcol ew dr = Inr (nn, ws)"
  shows "(\<forall>g. make_forward_pass_animation nn rt pf = Inr g \<longrightarrow>
            run_time g = Some rt \<and> lag_ratio g = 1 \<and> get_run_time dur g = rt)
       \<and> (\<forall>g. make_forward_pass_animation_default nn = Inr g \<longrightarrow> get_run_time dur g = 10)
       \<and> ((\<forall>i. i + 1 < length ls \<longrightarrow> supported (ls ! i) (ls ! (i + 1))) \<longrightarrow>
            (\<exists>g. make_forward_pass_animation nn rt pf = Inr g
               \<and> animations g =
                   concat (map (\<lambda>i. [Layer_forward_pass i, Connective_forward_pass i])
                               [0..<length ls - 1])
                   @ [Layer_forward_pass (length ls - 1)]))"
proof -
  have a: "\<forall>g. make_forward_pass_animation nn rt pf = Inr g \<longrightarrow>
            run_time g = Some rt \<and> lag_ratio g = 1 \<and> get_run_time dur g = rt"
  proof (intro allI impI)
    fix g assume "make_forward_pass_animation nn rt pf = Inr g"
    then have "run_time g = Some rt \<and> lag_ratio g = 1" by (rule forward_pass_result)
    then show "run_time g = Some rt \<and> lag_ratio g = 1 \<and> get_run_time dur g = rt"
      by (simp add: get_run_time_def)
  qed
  have b: "\<exists>g. make_forward_pass_animation nn rt pf = Inr g
               \<and> animations g =
                   concat (map (\<lambda>i. [Layer_forward_pass i, Connective_forward_pass i])
                               [0..<length ls - 1])
                   @ [Layer_forward_pass (length ls - 1)]"
    if sup: "\<forall>i. i + 1 < length ls \<longrightarrow> supported (ls ! i) (ls ! (i + 1))"
  proof -
    note l = NeuralNetwork_init_lengths[OF assms]
    have "\<forall>i<length ls - 1. adjacent_supported ls i"
      using sup by (simp add: adjacent_supported_def)
    then have "filter (adjacent_supported ls) [0..<length ls - 1] = [0..<length ls - 1]"
      by (rule filter_all_upt)
    then have c: "length (input_layers nn) - 1 \<le> length (connective_layers nn)"
      using l(2,3) by simp
    have ne: "input_layers nn \<noteq> []" using l(1,2) by auto
    show ?thesis
      unfolding forward_pass_ok[OF ne c] l(2) by simp
  qed
  have d: "\<forall>g. make_forward_pass_animation_default nn = Inr g \<longrightarrow> get_run_time dur g = 10"
    unfolding make_forward_pass_animation_default_def
    using forward_pass_result[of nn 10 True] by (auto simp: get_run_time_def)
  from a b d show ?thesis by blast
qed

lemma sample_chain_network:
  "NeuralNetwork_init sample_env sample_chain WHITE 0.8 RED 1.5 0.03 =
     Inr (\<lparr>input_layers =
            [\<lparr>layer_type = ImageLayer_class, center = (0, 0, 0), width = 4, height = 1, z_index = 2\<rparr>,
             \<lparr>layer_type = FeedForwardLayer_class, center = (32 / 10, 0, 0), width = 1, height = 1, z_index = 2\<rparr>,
             \<lparr>layer_type = FeedForwardLayer_class, center = (54 / 10, 0, 0), width = 2, height = 1, z_index = 2\<rparr>],
           connective_layers =
            [\<lparr>variant = ImageToFeedForward (3 / 100), from_layer = 0, to_layer = 1, c_z_index = 0\<rparr>,
             \<lparr>variant = FeedForwardToFeedForward (3 / 2), from_layer = 1, to_layer = 2, c_z_index = 0\<rparr>],
           all_layers = [Layer_ref 0, Connective_ref 0, Layer_ref 1, Connective_ref 1, Layer_ref 2],
           edge_width = 3 / 2, edge_color = WHITE, layer_spacing = 4 / 5,
           animation_dot_color = RED, dot_radius = 3 / 100\<rparr>, [])"
  by (simp add: NeuralNetwork_init_def construct_connective_layers_def
      connect_loop_def connect_step_def isinstance_def py_index_def set_z_index_connective_def
      place_layers_def place_loop_def place_step_def set_z_index_def move_to_def shift_def
      get_center_def sample_env_def sample_chain_def sample_layer_def ORIGIN_def upt_0_2 upt_1_3)

theorem forward_pass_duration_witness:
  "\<exists>nn. NeuralNetwork_init sample_env sample_chain WHITE 0.8 RED 1.5 0.03 = Inr (nn, [])
     \<and> (\<forall>i. i + 1 < length sample_chain \<longrightarrow> supported (sample_chain ! i) (sample_chain ! (i + 1)))
     \<and> (\<exists>g. make_forward_pass_animation nn 7 True = Inr g
           \<and> run_time g = Some 7 \<and> lag_ratio g = 1 \<and> get_run_time (\<lambda>a. 1) g = 7
           \<and> animations g =
               [Layer_forward_pass 0, Connective_forward_pass 0,
                Layer_forward_pass 1, Connective_forward_pass 1, Layer_forward_pass 2])"
proof -
  note t = forward_pass_duration[OF sample_chain_network, of 7 True "\<lambda>a. 1"]
  have len: "length sample_chain = 3" by (simp add: sample_chain_def)
  from t sample_chain_supported obtain g where
    g: "make_forward_pass_animation (fst (projr (NeuralNetwork_init sample_env sample_chain WHITE 0.8 RED 1.5 0.03))) 7 True = Inr g"
      "animations g =
         concat (map (\<lambda>i. [Layer_forward_pass i, Connective_forward_pass i]) [0..<length sample_chain - 1])
         @ [Layer_forward_pass (length sample_chain - 1)]"
    unfolding sample_chain_network by auto
  from t g(1) have "run_time g = Some 7 \<and> lag_ratio g = 1 \<and> get_run_time (\<lambda>a. 1) g = 7"
    unfolding sample_chain_network by auto
  with g sample_chain_supported show ?thesis
    unfolding sample_chain_network by (simp add: len upt_0_2)
qed

section \<open>Creation animation\<close>

lemma map_fst_timings: "map fst (timings dur lag t as) = as"
  by (induction as arbitrary: t) (simp_all add: Let_def)

lemma length_timings: "length (timings dur lag t as) = length as"
  by (induction as arbitrary: t) (simp_all add: Let_def)

lemma timings_first_start:
  "as \<noteq> [] \<Longrightarrow> fst (snd (timings dur lag t as ! 0)) = t"
  by (cases as) (simp_all add: Let_def)

lemma timings_end:
  "k < length as \<Longrightarrow>
   snd (snd (timings dur lag t as ! k)) = fst (snd (timings dur lag t as ! k)) + dur (as ! k)"
proof (induction as arbitrary: t k)
  case Nil
  then show ?case by simp
next
  case (Cons a as)
  then show ?case by (cases k) (simp_all add: Let_def)
qed

lemma timings_back_to_back:
  "k + 1 < length as \<Longrightarrow>
   fst (snd (timings dur 1 t as ! (k + 1))) = snd (snd (timings dur 1 t as ! k))"
proof (induction as arbitrary: t k)
  case Nil
  then show ?case by simp
next
  case (Cons a as)
  show ?case
  proof (cases k)
    case 0
    with Cons.prems have "as \<noteq> []" by auto
    then show ?thesis using 0 by (simp add: Let_def timings_first_start)
  next
    case (Suc j)
    with Cons.prems have "j + 1 < length as" by simp
    from Cons.IH[OF this] show ?thesis using Suc by (simp add: Let_def)
  qed
qed

lemma sum_list_dur_nonneg:
  fixes dur :: "animation \<Rightarrow> real"
  shows "(\<forall>a. 0 \<le> dur a) \<Longrightarrow> 0 \<le> sum_list (map dur as)"
  by (induction as) simp_all

lemma max_end_time_Cons:
  "rest \<noteq> [] \<Longrightarrow> max_end_time ((a, s, e) # rest) = max e (max_end_time rest)"
  by (cases rest) simp_all

lemma max_end_time_sequential:
  assumes "\<forall>a. 0 \<le> dur a"
  shows "as \<noteq> [] \<Longrightarrow> max_end_time (timings dur 1 t as) = t + sum_list (map dur as)"
proof (induction as arbitrary: t)
  case Nil
  then show ?case by simp
next
  case (Cons a as)
  show ?case
  proof (cases "as = []")
    case True
    then show ?thesis by (simp add: Let_def)
  next
    case False
    then have ne: "timings dur 1 (t + dur a) as \<noteq> []"
      using length_timings[of dur 1 "t + dur a" as] by auto
    have "max_end_time (timings dur 1 (t + dur a) as) = t + dur a + sum_list (map dur as)"
      using Cons.IH[OF False] .
    moreover have "0 \<le> sum_list (map dur as)"
      using assms by (rule sum_list_dur_nonneg)
    ultimately show ?thesis
      by (simp add: Let_def max_end_time_Cons[OF ne])
  qed
qed

text \<open>
  Claim C7. The \<^verbatim>\<open>Create\<close> override returns one group holding one creation animation for
  every member of the display group \<^verbatim>\<open>all_layers\<close>, in its order, with lag ratio 1 and no
  run time of its own. On the timeline of the group every creation starts at the time the
  one before it ends, and, durations not being negative, the group lasts the sum of the
  members' creation durations.
\<close>

theorem create_override_sequential:
  "animations (create_override nn) = map Create (all_layers nn)
   \<and> lag_ratio (create_override nn) = 1
   \<and> map fst (timings dur (lag_ratio (create_override nn)) 0 (animations (create_override nn)))
       = map Create (all_layers nn)
   \<and> (\<forall>k. k + 1 < length (all_layers nn) \<longrightarrow>
         fst (snd (timings dur (lag_ratio (create_override nn)) 0
                     (animations (create_override nn)) ! (k + 1)))
         = snd (snd (timings dur (lag_ratio (create_override nn)) 0
                     (animations (create_override nn)) ! k)))
   \<and> ((\<forall>a. 0 \<le> dur a) \<longrightarrow>
         get_run_time dur (create_override nn)
         = sum_list (map (\<lambda>e. dur (Create e)) (all_layers nn)))"
proof -
  have g: "animations (create_override nn) = map Create (all_layers nn)"
    "lag_ratio (create_override nn) = 1" "run_time (create_override nn) = None"
    by (simp_all add: create_override_def)
  have seq: "\<forall>k. k + 1 < length (all_layers nn) \<longrightarrow>
         fst (snd (timings dur 1 0 (map Create (all_layers nn)) ! (k + 1)))
         = snd (snd (timings dur 1 0 (map Create (all_layers nn)) ! k))"
    using timings_back_to_back[of _ "map Create (all_layers nn)" dur 0] by simp
  have tot: "get_run_time dur (create_override nn)
         = sum_list (map (\<lambda>e. dur (Create e)) (all_layers nn))" if "\<forall>a. 0 \<le> dur a"
  proof (cases "all_layers nn = []")
    case True
    then show ?thesis by (simp add: get_run_time_def g)
  next
    case False
    then have "map Create (all_layers nn) \<noteq> []" by simp
    from max_end_time_sequential[OF that this, of 0] show ?thesis
      by (simp add: get_run_time_def g comp_def)
  qed
  show ?thesis
    unfolding g using seq tot by (simp add: map_fst_timings)
qed

theorem create_override_sequential_witness:
  "\<exists>nn. NeuralNetwork_init sample_env sample_chain WHITE 0.8 RED 1.5 0.03 = Inr (nn, [])
     \<and> animations (create_override nn) =
         [Create (Layer_ref 0), Create (Connective_ref 0), Create (Layer_ref 1),
          Create (Connective_ref 1), Create (Layer_ref 2)]
     \<and> 0 + 1 < length (all_layers nn)
     \<and> (\<forall>a. (0::real) \<le> (case a of Create (Layer_ref i) \<Rightarrow> 2 | _ \<Rightarrow> 1))
     \<and> fst (snd (timings (\<lambda>a. case a of Create (Layer_ref i) \<Rightarrow> 2 | _ \<Rightarrow> 1)
                   (lag_ratio (create_override nn)) 0 (animations (create_override nn)) ! (0 + 1)))
         = snd (snd (timings (\<lambda>a. case a of Create (Layer_ref i) \<Rightarrow> 2 | _ \<Rightarrow> 1)
                   (lag_ratio (create_override nn)) 0 (animations (create_override nn)) ! 0))
     \<and> get_run_time (\<lambda>a. case a of Create (Layer_ref i) \<Rightarrow> 2 | _ \<Rightarrow> 1) (create_override nn) = 8"
proof -
  let ?nn = "fst (projr (NeuralNetwork_init sample_env sample_chain WHITE 0.8 RED 1.5 0.03))"
  let ?dur = "\<lambda>a. case a of Create (Layer_ref i) \<Rightarrow> (2::real) | _ \<Rightarrow> 1"
  have nonneg: "\<forall>a. 0 \<le> ?dur a"
    by (auto split: animation.splits element.splits)
  have len: "0 + 1 < length (all_layers ?nn)"
    unfolding sample_chain_network by simp
  note t = create_override_sequential[of ?nn ?dur]
  from t nonneg have
    "get_run_time ?dur (create_override ?nn) = sum_list (map (\<lambda>e. ?dur (Create e)) (all_layers ?nn))"
    by blast
  then have total: "get_run_time ?dur (create_override ?nn) = 8"
    unfolding sample_chain_network by simp
  from t len have step:
    "fst (snd (timings ?dur (lag_ratio (create_override ?nn)) 0 (animations (create_override ?nn)) ! (0 + 1)))
     = snd (snd (timings ?dur (lag_ratio (create_override ?nn)) 0 (animations (create_override ?nn)) ! 0))"
    by blast
  from t have anims: "animations (create_override ?nn) =
         [Create (Layer_ref 0), Create (Connective_ref 0), Create (Layer_ref 1),
          Create (Connective_ref 1), Create (Layer_ref 2)]"
    unfolding sample_chain_network by simp
  have "NeuralNetwork_init sample_env sample_chain WHITE 0.8 RED 1.5 0.03 = Inr (?nn, [])"
    unfolding sample_chain_network by simp
  with anims len nonneg step total show ?thesis by blast
qed

section \<open>The feed-forward network\<close>

lemma NeuralNetwork_init_all_supported:
  assumes "ls \<noteq> []"
    and "\<forall>i<length ls - 1. adjacent_supported ls i"
  shows "\<exists>v. NeuralNetwork_init env ls ecol lsp adcol ew dr =
     Inr (\<lparr>input_layers = map (\<lambda>l. shift l v) (place_layers env ls),
           connective_layers =
             set_z_index_connective 0 (map (connector_for env ls ew dr) [0..<length ls - 1]),
           all_layers = concat (map (\<lambda>i. [Layer_ref i, Connective_ref i]) [0..<length ls - 1])
                        @ [Layer_ref (length ls - 1)],
           edge_width = ew, edge_color = ecol, layer_spacing = lsp,
           animation_dot_color = adcol, dot_radius = dr\<rparr>, [])"
proof -
  define n where "n = length ls - 1"
  have sup: "\<forall>i<n. adjacent_supported ls i" using assms(2) by (simp add: n_def)
  then have f1: "filter (adjacent_supported ls) [0..<n] = [0..<n]"
    by (rule filter_all_upt)
  have f2: "filter (\<lambda>i. \<not> adjacent_supported ls i) [0..<n] = []"
    using sup by simp
  have d: "map (display_at ls) [0..<n] = map (\<lambda>i. [Layer_ref i, Connective_ref i]) [0..<n]"
    using sup by (intro map_cong) (auto simp: display_at_all_supported)
  show ?thesis
    using NeuralNetwork_init_closed[OF assms(1), of env ecol lsp adcol ew dr]
    unfolding n_def[symmetric] f1 f2 d by simp
qed

lemma nth_place_layers:
  assumes "i < length ls"
  shows "\<exists>p. place_layers env ls ! i = (ls ! i)\<lparr>center := p, z_index := 2\<rparr>"
proof -
  have "same_shape (place_loop env ls ! i) (ls ! i)"
    unfolding place_loop_def using assms by (rule same_shape_fold_place)
  then have "place_loop env ls ! i = (ls ! i)\<lparr>center := center (place_loop env ls ! i)\<rparr>"
    by (simp add: same_shape_def)
  moreover have "place_layers env ls ! i = (place_loop env ls ! i)\<lparr>z_index := 2\<rparr>"
    using assms by (simp add: place_layers_def place_loop_def nth_set_z_index length_fold_place)
  ultimately have "place_layers env ls ! i
      = (ls ! i)\<lparr>center := center (place_loop env ls ! i), z_index := 2\<rparr>"
    by simp
  then show ?thesis by blast
qed

text \<open>
  Claim C10. For a non-empty list of \<open>k\<close> node counts, \<^verbatim>\<open>FeedForwardNeuralNetwork\<close> builds
  \<open>k\<close> feed-forward layers in the order of the list (each the layer its constructor gave
  for that node count, moved and put at z-index 2), \<open>k - 1\<close> connectors, connector \<open>i\<close> the
  feed-forward to feed-forward connector from layer \<open>i\<close> to layer \<open>i + 1\<close>, and no warning.
\<close>

theorem feed_forward_network:
  assumes "layer_node_count \<noteq> []"
  shows "\<exists>nn. FeedForwardNeuralNetwork_init env geom layer_node_count node_radius node_color
                 ecol lsp adcol ew dr = Inr (nn, [])
     \<and> length (input_layers nn) = length layer_node_count
     \<and> (\<forall>i<length layer_node_count.
           layer_type (input_layers nn ! i) = FeedForwardLayer_class
         \<and> (\<exists>p. input_layers nn ! i =
                (FeedForwardLayer geom (layer_node_count ! i) node_color node_radius)
                  \<lparr>center := p, z_index := 2\<rparr>))
     \<and> length (connective_layers nn) = length layer_node_count - 1
     \<and> (\<forall>i. i + 1 < length layer_node_count \<longrightarrow>
           connective_layers nn ! i =
             \<lparr>variant = FeedForwardToFeedForward ew, from_layer = i, to_layer = i + 1,
              c_z_index = 0\<rparr>)"
proof -
  define ls where
    "ls = map (\<lambda>num_nodes. FeedForwardLayer geom num_nodes node_color node_radius) layer_node_count"
  define n where "n = length ls - 1"
  have len: "length ls = length layer_node_count" by (simp add: ls_def)
  have ne: "ls \<noteq> []" using assms by (simp add: ls_def)
  have ty: "layer_type (ls ! i) = FeedForwardLayer_class" if "i < length ls" for i
    using that by (simp add: ls_def FeedForwardLayer_def split: prod.splits)
  have sup: "\<forall>i<length ls - 1. adjacent_supported ls i"
  proof (intro allI impI)
    fix i assume "i < length ls - 1"
    then have "i < length ls" "i + 1 < length ls" by arith+
    then show "adjacent_supported ls i"
      using ty by (simp add: adjacent_supported_def supported_def isinstance_def)
  qed
  obtain v where eq: "NeuralNetwork_init env ls ecol lsp adcol ew dr =
     Inr (\<lparr>input_layers = map (\<lambda>l. shift l v) (place_layers env ls),
           connective_layers = set_z_index_connective 0 (map (connector_for env ls ew dr) [0..<n]),
           all_layers = concat (map (\<lambda>i. [Layer_ref i, Connective_ref i]) [0..<n]) @ [Layer_ref n],
           edge_width = ew, edge_color = ecol, layer_spacing = lsp,
           animation_dot_color = adcol, dot_radius = dr\<rparr>, [])"
    using NeuralNetwork_init_all_supported[OF ne sup, of env ecol lsp adcol ew dr]
    unfolding n_def[symmetric] by blast
  have lay: "layer_type (map (\<lambda>l. shift l v) (place_layers env ls) ! i) = FeedForwardLayer_class
      \<and> (\<exists>p. map (\<lambda>l. shift l v) (place_layers env ls) ! i =
            (FeedForwardLayer geom (layer_node_count ! i) node_color node_radius)
              \<lparr>center := p, z_index := 2\<rparr>)"
    if i: "i < length layer_node_count" for i
  proof -
    have il: "i < length ls" using i len by simp
    obtain p where p: "place_layers env ls ! i = (ls ! i)\<lparr>center := p, z_index := 2\<rparr>"
      using nth_place_layers[OF il, of env] by blast
    have "map (\<lambda>l. shift l v) (place_layers env ls) ! i = shift (place_layers env ls ! i) v"
      using il by (simp add: length_place_layers)
    also have "\<dots> = (ls ! i)\<lparr>center := padd p v, z_index := 2\<rparr>"
      unfolding p by (simp add: shift_def)
    finally have e: "map (\<lambda>l. shift l v) (place_layers env ls) ! i
        = (ls ! i)\<lparr>center := padd p v, z_index := 2\<rparr>" .
    have l: "ls ! i = FeedForwardLayer geom (layer_node_count ! i) node_color node_radius"
      using i by (simp add: ls_def)
    have "\<exists>q. map (\<lambda>l. shift l v) (place_layers env ls) ! i =
            (FeedForwardLayer geom (layer_node_count ! i) node_color node_radius)
              \<lparr>center := q, z_index := 2\<rparr>"
      unfolding e l by (rule exI[of _ "padd p v"]) (rule refl)
    moreover have "layer_type (map (\<lambda>l. shift l v) (place_layers env ls) ! i) = FeedForwardLayer_class"
      unfolding e using ty[OF il] by simp
    ultimately show ?thesis by (rule conjI[rotated])
  qed
  have con: "set_z_index_connective 0 (map (connector_for env ls ew dr) [0..<n]) ! i =
             \<lparr>variant = FeedForwardToFeedForward ew, from_layer = i, to_layer = i + 1,
              c_z_index = 0\<rparr>" if "i + 1 < length layer_node_count" for i
  proof -
    have "i < n" "i < length ls" using that len unfolding n_def by arith+
    then show ?thesis
      using ty[of i] by (simp add: set_z_index_connective_def connector_for_def isinstance_def)
  qed
  have n: "n = length layer_node_count - 1" by (simp add: n_def len)
  show ?thesis
    unfolding FeedForwardNeuralNetwork_init_def Let_def ls_def[symmetric] eq
    using lay con
    by (simp add: length_place_layers len set_z_index_connective_def n)
qed

theorem feed_forward_network_witness:
  "[5, 3, 5] \<noteq> ([] :: int list)
   \<and> (\<exists>nn. FeedForwardNeuralNetwork sample_env sample_geom [5, 3, 5] = Inr (nn, [])
        \<and> length (input_layers nn) = 3
        \<and> layer_type (input_layers nn ! 0) = FeedForwardLayer_class
        \<and> layer_type (input_layers nn ! 1) = FeedForwardLayer_class
        \<and> layer_type (input_layers nn ! 2) = FeedForwardLayer_class
        \<and> height (input_layers nn ! 1) = 3 * 0.08 * 3
        \<and> connective_layers nn =
            [\<lparr>variant = FeedForwardToFeedForward 1.5, from_layer = 0, to_layer = 1, c_z_index = 0\<rparr>,
             \<lparr>variant = FeedForwardToFeedForward 1.5, from_layer = 1, to_layer = 2, c_z_index = 0\<rparr>])"
proof -
  have h: "[5, 3, 5] \<noteq> ([] :: int list)" by simp
  obtain nn where nn:
    "FeedForwardNeuralNetwork_init sample_env sample_geom [5, 3, 5] 0.08 BLUE
        WHITE 0.8 RED 1.5 0.03 = Inr (nn, [])"
    "length (input_layers nn) = length [5, 3, 5 :: int]"
    "\<forall>i<length [5, 3, 5 :: int].
           layer_type (input_layers nn ! i) = FeedForwardLayer_class
         \<and> (\<exists>p. input_layers nn ! i =
                (FeedForwardLayer sample_geom ([5, 3, 5] ! i) BLUE 0.08)
                  \<lparr>center := p, z_index := 2\<rparr>)"
    "length (connective_layers nn) = length [5, 3, 5 :: int] - 1"
    "\<forall>i. i + 1 < length [5, 3, 5 :: int] \<longrightarrow>
           connective_layers nn ! i =
             \<lparr>variant = FeedForwardToFeedForward 1.5, from_layer = i, to_layer = i + 1,
              c_z_index = 0\<rparr>"
    using feed_forward_network[OF h, of sample_env sample_geom "0.08" BLUE WHITE "0.8" RED "1.5" "0.03"]
    by blast
  have t: "layer_type (input_layers nn ! 0) = FeedForwardLayer_class"
    "layer_type (input_layers nn ! 1) = FeedForwardLayer_class"
    "layer_type (input_layers nn ! 2) = FeedForwardLayer_class"
    using nn(3) by simp_all
  have "(1::nat) < length [5, 3, 5 :: int]" by simp
  from nn(3)[rule_format, OF this]
  have "\<exists>p. input_layers nn ! 1 =
      (FeedForwardLayer sample_geom ([5, 3, 5] ! 1) BLUE 0.08)\<lparr>center := p, z_index := 2\<rparr>"
    by (rule conjunct2)
  then have hgt: "height (input_layers nn ! 1) = 3 * 0.08 * 3"
    by (auto simp: FeedForwardLayer_def sample_geom_def)
  have c: "connective_layers nn ! 0 =
      \<lparr>variant = FeedForwardToFeedForward 1.5, from_layer = 0, to_layer = 1, c_z_index = 0\<rparr>"
    "connective_layers nn ! 1 =
      \<lparr>variant = FeedForwardToFeedForward 1.5, from_layer = 1, to_layer = 2, c_z_index = 0\<rparr>"
    using nn(5) by simp_all
  have "length (connective_layers nn) = 2" using nn(4) by simp
  then have "connective_layers nn = [connective_layers nn ! 0, connective_layers nn ! 1]"
    by (intro nth_equalityI) (auto simp: less_Suc_eq numeral_2_eq_2)
  then have cs: "connective_layers nn =
            [\<lparr>variant = FeedForwardToFeedForward 1.5, from_layer = 0, to_layer = 1, c_z_index = 0\<rparr>,
             \<lparr>variant = FeedForwardToFeedForward 1.5, from_layer = 1, to_layer = 2, c_z_index = 0\<rparr>]"
    unfolding c .
  from nn(1,2) t hgt cs show ?thesis
    unfolding FeedForwardNeuralNetwork_def by simp
qed

end
